theory Spec2Isabelle
  imports Complex_Main "HOL-Library.Word"
begin

section \<open>The DYHT interaction controller (class \<open>DyhtApp\<close>) and its render loop\<close>

text \<open>
  The controller is the TypeScript class \<open>DyhtApp\<close>. Its fields are the session state; its
  methods are the handlers bound to the page's controls. Everything a handler touches
  besides the fields is made part of the state as well: the page (the elements the handlers
  look up), the console, the blocking dialogs and the calls issued to the backend.

  The page itself (the HTML) is not part of the sources: it is a parameter, the list of the
  elements of the document in document order. The children of the two containers the
  controller renders into (\<open>#chat-messages\<close> and \<open>#clips-list\<close>) are kept in lists of their
  own; the elements the handlers look up by id are taken to lie outside these two
  containers.
\<close>

subsection \<open>Data model\<close>

datatype role = User | Assistant

record ChatMessage =
  role :: role
  content :: string
  timestamp :: string

record AudioClip =
  clip_id :: string
  clip_timestamp :: string
  duration_ms :: nat
  file_path :: string
  transcription :: "string option"
  waveform_data :: "int list option"
  tags :: "string list"

datatype tag = Button | Input | Select | Div | Span | Canvas

record element =
  eid :: string                 \<comment> \<open>the id attribute, empty when there is none\<close>
  tag :: tag
  classList :: "string list"
  ancestors :: "string list"    \<comment> \<open>the ids of the enclosing elements\<close>
  disabled :: bool
  textContent :: string
  val :: string                 \<comment> \<open>the \<open>value\<close> property of an input\<close>
  styleColor :: string          \<comment> \<open>\<open>style.color\<close>\<close>
  styleBorderColor :: string    \<comment> \<open>\<open>style.borderColor\<close>\<close>
  styleHeight :: string         \<comment> \<open>\<open>style.height\<close>\<close>
  styleDisplay :: string        \<comment> \<open>\<open>style.display\<close>\<close>

datatype error = TypeError | Rejected string

datatype jsval = S string | B bool | E error

datatype entry = ConsoleLog "jsval list" | ConsoleError "jsval list"

datatype payload = NoArgs | MessageArg string | AudioDataArg "nat list"

datatype invocation = Invoke string payload

record DyhtApp =
  isRecording :: bool
  chatHistory :: "ChatMessage list"
  audioClips :: "AudioClip list"
  isAdminVerified :: bool
  document :: "element list"            \<comment> \<open>the page, in document order\<close>
  chatMessagesChildren :: "element list" \<comment> \<open>children of \<open>#chat-messages\<close>\<close>
  clipsListChildren :: "element list"    \<comment> \<open>content of \<open>#clips-list\<close>\<close>
  console :: "entry list"
  alerts :: "string list"               \<comment> \<open>texts shown by \<open>alert\<close>\<close>
  confirms :: "string list"             \<comment> \<open>questions asked by \<open>confirm\<close>\<close>
  invoked :: "invocation list"          \<comment> \<open>calls issued to the backend, oldest first\<close>

text \<open>
  The state a freshly constructed controller has on a given page, with nothing rendered
  into the two containers yet.
\<close>

definition initial :: "element list \<Rightarrow> DyhtApp" where
  "initial page =
     \<lparr>isRecording = False, chatHistory = [], audioClips = [], isAdminVerified = False,
      document = page, chatMessagesChildren = [], clipsListChildren = [],
      console = [], alerts = [], confirms = [], invoked = []\<rparr>"

subsection \<open>The page\<close>

definition createElement :: "tag \<Rightarrow> element" where
  "createElement t =
     \<lparr>eid = [], tag = t, classList = [], ancestors = [], disabled = False,
      textContent = [], val = [], styleColor = [], styleBorderColor = [],
      styleHeight = [], styleDisplay = []\<rparr>"

definition getElementById :: "string \<Rightarrow> DyhtApp \<Rightarrow> element option" where
  "getElementById i s = find (\<lambda>e. eid e = i) (document s)"

text \<open>An assignment through a reference reaches the first element that matches.\<close>

fun modifyFirst :: "(element \<Rightarrow> bool) \<Rightarrow> (element \<Rightarrow> element) \<Rightarrow> element list \<Rightarrow> element list" where
  "modifyFirst P f [] = []"
| "modifyFirst P f (e # es) = (if P e then f e # es else e # modifyFirst P f es)"

subsection \<open>Statements that may throw\<close>

text \<open>
  A statement runs on a state and either completes or throws; in both cases the state
  it has reached is kept, as the assignments made before a throw stay in effect. A block
  runs its statements in order and stops at the first throw.
\<close>

type_synonym stmt = "DyhtApp \<Rightarrow> error option \<times> DyhtApp"

definition andThen :: "stmt \<Rightarrow> stmt \<Rightarrow> stmt" where
  "andThen p q s = (case p s of (None, s') \<Rightarrow> q s' | (Some e, s') \<Rightarrow> (Some e, s'))"

fun block :: "stmt list \<Rightarrow> stmt" where
  "block [] = (\<lambda>s. (None, s))"
| "block (p # ps) = andThen p (block ps)"

definition perform :: "(DyhtApp \<Rightarrow> DyhtApp) \<Rightarrow> stmt" where
  "perform f s = (None, f s)"

text \<open>
  \<open>x.p = v\<close> where \<open>x\<close> is the result of \<open>document.getElementById(i)\<close>: a TypeError when
  the element does not exist.
\<close>

definition assign :: "string \<Rightarrow> (element \<Rightarrow> element) \<Rightarrow> stmt" where
  "assign i f s =
     (case getElementById i s of
        None \<Rightarrow> (Some TypeError, s)
      | Some _ \<Rightarrow> (None, s\<lparr>document := modifyFirst (\<lambda>e. eid e = i) f (document s)\<rparr>))"

definition consoleLog :: "jsval list \<Rightarrow> DyhtApp \<Rightarrow> DyhtApp" where
  "consoleLog vs s = s\<lparr>console := console s @ [ConsoleLog vs]\<rparr>"

definition consoleError :: "jsval list \<Rightarrow> DyhtApp \<Rightarrow> DyhtApp" where
  "consoleError vs s = s\<lparr>console := console s @ [ConsoleError vs]\<rparr>"

definition alert :: "string \<Rightarrow> DyhtApp \<Rightarrow> DyhtApp" where
  "alert m s = s\<lparr>alerts := alerts s @ [m]\<rparr>"

definition invoke :: "string \<Rightarrow> payload \<Rightarrow> DyhtApp \<Rightarrow> DyhtApp" where
  "invoke cmd args s = s\<lparr>invoked := invoked s @ [Invoke cmd args]\<rparr>"

text \<open>
  A handler either finishes, or is suspended at an \<open>await\<close> of a backend call, or ends
  with an exception nothing catches (the state is then as it was).
\<close>

datatype progress = Finished DyhtApp | Awaiting DyhtApp | Uncaught error

text \<open>
  The reply of the backend to a call: \<open>Inr v\<close> when the promise resolves to \<open>v\<close>, \<open>Inl e\<close>
  when it rejects with \<open>e\<close>.
\<close>

type_synonym reply = "error + string"

subsection \<open>Chat\<close>

definition role_name :: "role \<Rightarrow> string" where
  "role_name r = (case r of User \<Rightarrow> ''user'' | Assistant \<Rightarrow> ''assistant'')"

text \<open>
  \<open>addChatMessage(role, content)\<close>; \<open>now\<close> is the clock reading \<open>new Date().toISOString()\<close>.
  The scroll position of the container is layout and is left out.
\<close>

definition addChatMessage :: "role \<Rightarrow> string \<Rightarrow> string \<Rightarrow> DyhtApp \<Rightarrow> DyhtApp" where
  "addChatMessage r c now s =
     (let message = \<lparr>role = r, content = c, timestamp = now\<rparr>;
          s1 = s\<lparr>chatHistory := chatHistory s @ [message]\<rparr>
      in case getElementById ''chat-messages'' s1 of
           None \<Rightarrow> s1
         | Some _ \<Rightarrow>
             s1\<lparr>chatMessagesChildren := chatMessagesChildren s1 @
                   [(createElement Div)\<lparr>classList := [''chat-message'', role_name r],
                                         textContent := c\<rparr>]\<rparr>)"

text \<open>
  Texts are UTF-8. The code points that \<open>String.prototype.trim\<close> strips, as their
  encodings: the white space U+0009, U+000B, U+000C, U+FEFF and the space separators
  U+0020, U+00A0, U+1680, U+2000 to U+200A, U+202F, U+205F, U+3000, and the line
  terminators U+000A, U+000D, U+2028, U+2029.
\<close>

definition whiteSpace :: "string list" where
  "whiteSpace =
     [[CHR 0x09], [CHR 0x0A], [CHR 0x0B], [CHR 0x0C], [CHR 0x0D], [CHR 0x20],
      [CHR 0xC2, CHR 0xA0],
      [CHR 0xE1, CHR 0x9A, CHR 0x80],
      [CHR 0xE2, CHR 0x80, CHR 0x80], [CHR 0xE2, CHR 0x80, CHR 0x81],
      [CHR 0xE2, CHR 0x80, CHR 0x82], [CHR 0xE2, CHR 0x80, CHR 0x83],
      [CHR 0xE2, CHR 0x80, CHR 0x84], [CHR 0xE2, CHR 0x80, CHR 0x85],
      [CHR 0xE2, CHR 0x80, CHR 0x86], [CHR 0xE2, CHR 0x80, CHR 0x87],
      [CHR 0xE2, CHR 0x80, CHR 0x88], [CHR 0xE2, CHR 0x80, CHR 0x89],
      [CHR 0xE2, CHR 0x80, CHR 0x8A],
      [CHR 0xE2, CHR 0x80, CHR 0xA8], [CHR 0xE2, CHR 0x80, CHR 0xA9],
      [CHR 0xE2, CHR 0x80, CHR 0xAF],
      [CHR 0xE2, CHR 0x81, CHR 0x9F],
      [CHR 0xE3, CHR 0x80, CHR 0x80],
      [CHR 0xEF, CHR 0xBB, CHR 0xBF]]"

definition startsWith :: "string \<Rightarrow> string \<Rightarrow> bool" where
  "startsWith str p = (p \<noteq> [] \<and> take (length p) str = p)"

text \<open>Taking the given sequences off the front of a text for as long as one of them is there.\<close>

function strip :: "string list \<Rightarrow> string \<Rightarrow> string" where
  "strip ps str =
     (case find (startsWith str) ps of
        None \<Rightarrow> str
      | Some p \<Rightarrow> strip ps (drop (length p) str))"
  by pat_completeness auto
termination
proof (relation "measure (\<lambda>(ps, str). length str)")
  show "wf (measure (\<lambda>(ps, str). length str))" by simp
next
  fix ps :: "string list" and str p :: string
  assume "find (startsWith str) ps = Some p"
  then have "startsWith str p" by (auto simp add: find_Some_iff)
  then have ne: "p \<noteq> []" and tk: "take (length p) str = p"
    by (simp_all add: startsWith_def)
  have "length (take (length p) str) = length p" by (simp only: tk)
  then have "length p \<le> length str" by simp
  with ne show "((ps, drop (length p) str), (ps, str)) \<in> measure (\<lambda>(ps, str). length str)"
    by (cases p) auto
qed

declare strip.simps [simp del]

text \<open>\<open>String.prototype.trim\<close>: the white space is taken off the front and off the end.\<close>

definition trim :: "string \<Rightarrow> string" where
  "trim str = rev (strip (map rev whiteSpace) (rev (strip whiteSpace str)))"

text \<open>The length of an encoding, as its first byte gives it.\<close>

definition encodedLength :: "char \<Rightarrow> nat" where
  "encodedLength c =
     (if c = CHR 0xC2 then 2
      else if c \<in> set [CHR 0xE1, CHR 0xE2, CHR 0xE3, CHR 0xEF] then 3
      else 1)"

text \<open>
  \<open>sendMessage\<close> up to its \<open>await\<close>. Reading \<open>chatInput.value\<close> is outside the \<open>try\<close>: without
  the input element the handler ends with an uncaught TypeError.
\<close>

definition sendMessage_begin :: "string \<Rightarrow> DyhtApp \<Rightarrow> progress" where
  "sendMessage_begin now s =
     (case getElementById ''chat-input'' s of
        None \<Rightarrow> Uncaught TypeError
      | Some chatInput \<Rightarrow>
          (let message = trim (val chatInput) in
           if message = [] then Finished s
           else
             (let s1 = addChatMessage User message now s;
                  s2 = s1\<lparr>document := modifyFirst (\<lambda>e. eid e = ''chat-input'')
                                          (\<lambda>e. e\<lparr>val := []\<rparr>) (document s1)\<rparr>
              in Awaiting (invoke ''chat_with_agent'' (MessageArg message) s2))))"

text \<open>\<open>sendMessage\<close> from the point where the awaited call settles.\<close>

definition sendMessage_resume :: "reply \<Rightarrow> string \<Rightarrow> DyhtApp \<Rightarrow> DyhtApp" where
  "sendMessage_resume r now s =
     (case r of
        Inr response \<Rightarrow> addChatMessage Assistant response now s
      | Inl err \<Rightarrow>
          addChatMessage Assistant ''Sorry, I encountered an error processing your message.'' now
            (consoleError [S ''Chat error:'', E err] s))"

text \<open>A handler run with nothing else happening while it awaits.\<close>

definition uninterrupted :: "progress \<Rightarrow> (DyhtApp \<Rightarrow> DyhtApp) \<Rightarrow> progress" where
  "uninterrupted p k = (case p of Awaiting s \<Rightarrow> Finished (k s) | _ \<Rightarrow> p)"

definition sendMessage :: "string \<Rightarrow> reply \<Rightarrow> string \<Rightarrow> DyhtApp \<Rightarrow> progress" where
  "sendMessage now r now' s = uninterrupted (sendMessage_begin now s) (sendMessage_resume r now')"

subsection \<open>Recording\<close>

text \<open>\<open>startRecording\<close>: the whole body is inside \<open>try\<close>, the handler resets the flag.\<close>

definition startRecording_try :: stmt where
  "startRecording_try =
     block
       [perform (\<lambda>s. s\<lparr>isRecording := True\<rparr>),
        assign ''record-btn'' (\<lambda>e. e\<lparr>disabled := True\<rparr>),
        assign ''stop-btn'' (\<lambda>e. e\<lparr>disabled := False\<rparr>),
        assign ''recording-status'' (\<lambda>e. e\<lparr>textContent := ''Recording...''\<rparr>),
        assign ''recording-status'' (\<lambda>e. e\<lparr>styleColor := ''#ff3333''\<rparr>),
        perform (consoleLog [S ''Recording started (placeholder)''])]"

definition startRecording :: "DyhtApp \<Rightarrow> DyhtApp" where
  "startRecording s =
     (case startRecording_try s of
        (None, s') \<Rightarrow> s'
      | (Some err, s') \<Rightarrow>
          (consoleError [S ''Recording error:'', E err] s')\<lparr>isRecording := False\<rparr>)"

text \<open>The placeholder samples, \<open>new Uint8Array([1, 2, 3, 4, 5])\<close>.\<close>

definition audioData :: "8 word list" where
  "audioData = [1, 2, 3, 4, 5]"

text \<open>\<open>stopRecording\<close> up to its \<open>await\<close>.\<close>

definition stopRecording_try :: stmt where
  "stopRecording_try =
     block
       [perform (\<lambda>s. s\<lparr>isRecording := False\<rparr>),
        assign ''record-btn'' (\<lambda>e. e\<lparr>disabled := False\<rparr>),
        assign ''stop-btn'' (\<lambda>e. e\<lparr>disabled := True\<rparr>),
        assign ''recording-status'' (\<lambda>e. e\<lparr>textContent := ''Processing...''\<rparr>),
        assign ''recording-status'' (\<lambda>e. e\<lparr>styleColor := ''#ff6b35''\<rparr>),
        perform (invoke ''process_audio'' (AudioDataArg (map unat audioData)))]"

definition stopRecording_begin :: "DyhtApp \<Rightarrow> progress" where
  "stopRecording_begin s =
     (case stopRecording_try s of
        (None, s') \<Rightarrow> Awaiting s'
      | (Some err, s') \<Rightarrow> Finished (consoleError [S ''Stop recording error:'', E err] s'))"

fun decimal :: "nat \<Rightarrow> string" where
  "decimal n =
     (if n < 10 then [char_of (48 + n)] else decimal (n div 10) @ [char_of (48 + n mod 10)])"

declare decimal.simps [simp del]

text \<open>
  The markup \<open>updateAudioClipsList\<close> puts into \<open>#clips-list\<close>, as the elements it parses to;
  the texts of the last three are UTF-8.
\<close>

definition clipItem :: "string list \<Rightarrow> string \<Rightarrow> element list" where
  "clipItem up localeTime =
     (let inside = (\<lambda>t c txt. (createElement t)\<lparr>classList := c, ancestors := up, textContent := txt\<rparr>)
      in [inside Div [''clip-item''] [],
          inside Div [''clip-info''] [],
          inside Div [''clip-name''] (''Recording '' @ localeTime),
          inside Div [''clip-meta''] (''5.2s '' @ [CHR 0xE2, CHR 0x80, CHR 0xA2] @ '' Just now''),
          inside Div [''clip-actions''] [],
          inside Button [''clip-btn'', ''play''] [CHR 0xE2, CHR 0x96, CHR 0xB6],
          inside Button [''clip-btn'', ''delete''] [CHR 0xF0, CHR 0x9F, CHR 0x97, CHR 0x91]])"

text \<open>
  \<open>updateAudioClipsList\<close>; the clock is read three times: \<open>toLocaleTimeString()\<close>,
  \<open>Date.now()\<close> and \<open>toISOString()\<close>.
\<close>

definition updateAudioClipsList :: "string \<Rightarrow> nat \<Rightarrow> string \<Rightarrow> DyhtApp \<Rightarrow> DyhtApp" where
  "updateAudioClipsList localeTime nowMs isoTime s =
     (case getElementById ''clips-list'' s of
        None \<Rightarrow> s
      | Some clipsList \<Rightarrow>
          s\<lparr>clipsListChildren := clipItem (ancestors clipsList @ [''clips-list'']) localeTime,
            audioClips := audioClips s @
              [\<lparr>clip_id = ''clip-'' @ decimal nowMs,
                clip_timestamp = isoTime,
                duration_ms = 5200,
                file_path = ''placeholder.wav'',
                transcription = Some ''Placeholder transcription'',
                waveform_data = Some [],
                tags = [''recorded'']\<rparr>]\<rparr>)"

text \<open>What a resumed handler reads from the wall clock, in the order of the reads.\<close>

record readings =
  isoString :: string
  localeTimeString :: string
  millis :: nat
  isoString2 :: string

text \<open>
  \<open>stopRecording\<close> from the point where the awaited call settles. The status element
  is the one found before the \<open>await\<close>.
\<close>

definition stopRecording_rest :: "string \<Rightarrow> readings \<Rightarrow> stmt" where
  "stopRecording_rest transcribed rd =
     block
       [assign ''recording-status'' (\<lambda>e. e\<lparr>textContent := ''Ready''\<rparr>),
        assign ''recording-status'' (\<lambda>e. e\<lparr>styleColor := ''#cccccc''\<rparr>),
        perform (addChatMessage Assistant (''Audio processed: '' @ transcribed) (isoString rd)),
        perform (updateAudioClipsList (localeTimeString rd) (millis rd) (isoString2 rd))]"

definition stopRecording_resume :: "reply \<Rightarrow> readings \<Rightarrow> DyhtApp \<Rightarrow> DyhtApp" where
  "stopRecording_resume r rd s =
     (case r of
        Inl err \<Rightarrow> consoleError [S ''Stop recording error:'', E err] s
      | Inr transcribed \<Rightarrow>
          (case stopRecording_rest transcribed rd s of
             (None, s') \<Rightarrow> s'
           | (Some err, s') \<Rightarrow> consoleError [S ''Stop recording error:'', E err] s'))"

definition stopRecording :: "reply \<Rightarrow> readings \<Rightarrow> DyhtApp \<Rightarrow> progress" where
  "stopRecording r rd s = uninterrupted (stopRecording_begin s) (stopRecording_resume r rd)"

definition toggleRecording :: "DyhtApp \<Rightarrow> progress" where
  "toggleRecording s =
     (if \<not> isRecording s then Finished (startRecording s) else stopRecording_begin s)"

subsection \<open>Settings\<close>

definition verifyAdminCode_try :: stmt where
  "verifyAdminCode_try =
     block
       [perform (\<lambda>s. s\<lparr>isAdminVerified := True\<rparr>),
        (\<lambda>s. case getElementById ''admin-code'' s of
                None \<Rightarrow> (None, s)
              | Some _ \<Rightarrow> assign ''admin-code'' (\<lambda>e. e\<lparr>styleBorderColor := ''#00ff00''\<rparr>) s),
        perform (alert ''Admin access granted'')]"

definition verifyAdminCode_catch :: "error \<Rightarrow> DyhtApp \<Rightarrow> DyhtApp" where
  "verifyAdminCode_catch err s =
     (let s1 = consoleError [S ''Admin verification error:'', E err] s;
          s2 = (case getElementById ''admin-code'' s1 of
                  None \<Rightarrow> s1
                | Some _ \<Rightarrow>
                    s1\<lparr>document := modifyFirst (\<lambda>e. eid e = ''admin-code'')
                                      (\<lambda>e. e\<lparr>styleBorderColor := ''#ff3333''\<rparr>) (document s1)\<rparr>)
      in alert ''Invalid admin code'' s2)"

definition verifyAdminCode :: "string \<Rightarrow> DyhtApp \<Rightarrow> DyhtApp" where
  "verifyAdminCode adminCode s =
     (if adminCode = [] then alert ''Please enter an admin code'' s
      else (case verifyAdminCode_try s of
              (None, s') \<Rightarrow> s'
            | (Some err, s') \<Rightarrow> verifyAdminCode_catch err s'))"

definition switchModel_try :: "string \<Rightarrow> string \<Rightarrow> stmt" where
  "switchModel_try model now =
     block
       [perform (consoleLog [S (''Switching to model: '' @ model)]),
        perform (addChatMessage Assistant (''Switched to '' @ model @ '' model'') now)]"

definition switchModel :: "string \<Rightarrow> string \<Rightarrow> DyhtApp \<Rightarrow> DyhtApp" where
  "switchModel model now s =
     (case switchModel_try model now s of
        (None, s') \<Rightarrow> s'
      | (Some err, s') \<Rightarrow> consoleError [S ''Model switch error:'', E err] s')"

definition switchTheme :: "string \<Rightarrow> DyhtApp \<Rightarrow> DyhtApp" where
  "switchTheme theme s =
     (let s1 = consoleLog [S (''Switching to theme: '' @ theme)] s
      in consoleLog [S ''Admin verified:'', B (isAdminVerified s1)] s1)"

subsection \<open>Emergency kill switch\<close>

definition killSwitchQuestion :: string where
  "killSwitchQuestion =
     ''Are you sure you want to activate the emergency kill switch? This will shut down all AI agent functions.''"

text \<open>
  \<open>emergencyKillSwitch\<close> up to its \<open>await\<close>; \<open>confirmed\<close> is the user's answer to the
  \<open>confirm\<close> dialog.
\<close>

definition emergencyKillSwitch_begin :: "bool \<Rightarrow> DyhtApp \<Rightarrow> progress" where
  "emergencyKillSwitch_begin confirmed s =
     (let s1 = s\<lparr>confirms := confirms s @ [killSwitchQuestion]\<rparr>
      in if confirmed then Awaiting (invoke ''emergency_kill_switch'' NoArgs s1) else Finished s1)"

text \<open>
  \<open>document.querySelectorAll('button:not(#kill-switch)')\<close> followed by
  \<open>forEach(btn => btn.disabled = true)\<close>, on one element.
\<close>

definition disableButton :: "element \<Rightarrow> element" where
  "disableButton e = (if tag e = Button \<and> eid e \<noteq> ''kill-switch'' then e\<lparr>disabled := True\<rparr> else e)"

definition disableButtons :: "DyhtApp \<Rightarrow> DyhtApp" where
  "disableButtons s =
     s\<lparr>document := map disableButton (document s),
       chatMessagesChildren := map disableButton (chatMessagesChildren s),
       clipsListChildren := map disableButton (clipsListChildren s)\<rparr>"

definition emergencyKillSwitch_resume :: "reply \<Rightarrow> string \<Rightarrow> DyhtApp \<Rightarrow> DyhtApp" where
  "emergencyKillSwitch_resume r now s =
     (case r of
        Inr _ \<Rightarrow>
          disableButtons
            (addChatMessage Assistant ''Emergency shutdown activated. All AI functions disabled.'' now s)
      | Inl err \<Rightarrow> consoleError [S ''Emergency shutdown error:'', E err] s)"

definition emergencyKillSwitch :: "bool \<Rightarrow> reply \<Rightarrow> string \<Rightarrow> DyhtApp \<Rightarrow> progress" where
  "emergencyKillSwitch confirmed r now s =
     uninterrupted (emergencyKillSwitch_begin confirmed s) (emergencyKillSwitch_resume r now)"

subsection \<open>Panel, triggers, start-up\<close>

text \<open>
  \<open>minimizePanel\<close>: the panel is the element with the id; \<open>querySelector('.panel-content')\<close>
  finds the first element inside it that has the class, and \<open>setAttribute('style', ...)\<close>
  replaces the whole inline style of that element. What the controller renders into its
  two containers carries other classes.
\<close>

definition minimizePanel :: "DyhtApp \<Rightarrow> DyhtApp" where
  "minimizePanel s =
     (case getElementById ''dwight-panel'' s of
        None \<Rightarrow> s
      | Some _ \<Rightarrow>
          s\<lparr>document :=
              modifyFirst
                (\<lambda>e. ''dwight-panel'' \<in> set (ancestors e) \<and> ''panel-content'' \<in> set (classList e))
                (\<lambda>e. e\<lparr>styleColor := [], styleBorderColor := [], styleHeight := [],
                        styleDisplay := ''none''\<rparr>)
                (modifyFirst (\<lambda>e. eid e = ''dwight-panel'') (\<lambda>e. e\<lparr>styleHeight := ''40px''\<rparr>)
                   (document s))\<rparr>)"

definition closePanel :: "DyhtApp \<Rightarrow> DyhtApp" where
  "closePanel s =
     (case getElementById ''dwight-panel'' s of
        None \<Rightarrow> s
      | Some _ \<Rightarrow>
          s\<lparr>document := modifyFirst (\<lambda>e. eid e = ''dwight-panel'') (\<lambda>e. e\<lparr>styleDisplay := ''none''\<rparr>)
                           (document s)\<rparr>)"

definition boolean :: "bool \<Rightarrow> string" where
  "boolean b = (if b then ''true'' else ''false'')"

definition toggleVoiceActivation :: "bool \<Rightarrow> DyhtApp \<Rightarrow> DyhtApp" where
  "toggleVoiceActivation enabled = consoleLog [S (''Voice activation: '' @ boolean enabled)]"

definition toggleAutoTranscribe :: "bool \<Rightarrow> DyhtApp \<Rightarrow> DyhtApp" where
  "toggleAutoTranscribe enabled = consoleLog [S (''Auto-transcribe: '' @ boolean enabled)]"

definition toggleSmartResponse :: "bool \<Rightarrow> DyhtApp \<Rightarrow> DyhtApp" where
  "toggleSmartResponse enabled = consoleLog [S (''Smart response: '' @ boolean enabled)]"

definition loadInitialData_begin :: "DyhtApp \<Rightarrow> progress" where
  "loadInitialData_begin s = Awaiting (invoke ''init_agent'' NoArgs s)"

definition loadInitialData_resume :: "reply \<Rightarrow> string \<Rightarrow> DyhtApp \<Rightarrow> DyhtApp" where
  "loadInitialData_resume r now s =
     (case r of
        Inr _ \<Rightarrow> addChatMessage Assistant ''Dwight AI agent initialized. Ready to assist!'' now s
      | Inl err \<Rightarrow>
          addChatMessage Assistant
            ''Failed to initialize agent. Please check the console for errors.'' now
            (consoleError [S ''Failed to initialize agent:'', E err] s))"

definition loadInitialData :: "reply \<Rightarrow> string \<Rightarrow> DyhtApp \<Rightarrow> progress" where
  "loadInitialData r now s = uninterrupted (loadInitialData_begin s) (loadInitialData_resume r now)"

subsection \<open>Sequences of operations\<close>

text \<open>
  The handlers run on one thread: each runs until it finishes or reaches an \<open>await\<close>, and
  while a call is outstanding any other handler may run. A configuration is the state
  together with the calls whose handlers are suspended; an event is a handler being
  started with what it reads from its surroundings, or an outstanding call settling.
\<close>

datatype call = InitAgent | ChatWithAgent | ProcessAudio | KillSwitch

datatype event =
    LoadInitialData
  | SendMessage string
  | ToggleRecording
  | StopRecording
  | VerifyAdminCode string
  | SwitchModel string string
  | SwitchTheme string
  | EmergencyKillSwitch bool
  | MinimizePanel
  | ClosePanel
  | ToggleVoiceActivation bool
  | ToggleAutoTranscribe bool
  | ToggleSmartResponse bool
  | Settle call reply readings

type_synonym config = "DyhtApp \<times> call list"

definition dispatch :: "call \<Rightarrow> config \<Rightarrow> progress \<Rightarrow> config" where
  "dispatch c cfg p =
     (case p of
        Finished s' \<Rightarrow> (s', snd cfg)
      | Awaiting s' \<Rightarrow> (s', snd cfg @ [c])
      | Uncaught err \<Rightarrow> cfg)"

definition resume :: "call \<Rightarrow> reply \<Rightarrow> readings \<Rightarrow> DyhtApp \<Rightarrow> DyhtApp" where
  "resume c r rd s =
     (case c of
        InitAgent \<Rightarrow> loadInitialData_resume r (isoString rd) s
      | ChatWithAgent \<Rightarrow> sendMessage_resume r (isoString rd) s
      | ProcessAudio \<Rightarrow> stopRecording_resume r rd s
      | KillSwitch \<Rightarrow> emergencyKillSwitch_resume r (isoString rd) s)"

definition step :: "event \<Rightarrow> config \<Rightarrow> config" where
  "step ev cfg =
     (let s = fst cfg; q = snd cfg in
      case ev of
        LoadInitialData \<Rightarrow> dispatch InitAgent cfg (loadInitialData_begin s)
      | SendMessage now \<Rightarrow> dispatch ChatWithAgent cfg (sendMessage_begin now s)
      | ToggleRecording \<Rightarrow> dispatch ProcessAudio cfg (toggleRecording s)
      | StopRecording \<Rightarrow> dispatch ProcessAudio cfg (stopRecording_begin s)
      | VerifyAdminCode adminCode \<Rightarrow> (verifyAdminCode adminCode s, q)
      | SwitchModel model now \<Rightarrow> (switchModel model now s, q)
      | SwitchTheme theme \<Rightarrow> (switchTheme theme s, q)
      | EmergencyKillSwitch confirmed \<Rightarrow> dispatch KillSwitch cfg (emergencyKillSwitch_begin confirmed s)
      | MinimizePanel \<Rightarrow> (minimizePanel s, q)
      | ClosePanel \<Rightarrow> (closePanel s, q)
      | ToggleVoiceActivation enabled \<Rightarrow> (toggleVoiceActivation enabled s, q)
      | ToggleAutoTranscribe enabled \<Rightarrow> (toggleAutoTranscribe enabled s, q)
      | ToggleSmartResponse enabled \<Rightarrow> (toggleSmartResponse enabled s, q)
      | Settle c r rd \<Rightarrow> (if c \<in> set q then (resume c r rd s, remove1 c q) else cfg))"

definition run :: "event list \<Rightarrow> config \<Rightarrow> config" where
  "run evs cfg = fold step evs cfg"

text \<open>The state a handler leaves behind when started in a given state.\<close>

definition after :: "progress \<Rightarrow> DyhtApp \<Rightarrow> DyhtApp" where
  "after p s = (case p of Finished s' \<Rightarrow> s' | Awaiting s' \<Rightarrow> s' | Uncaught err \<Rightarrow> s)"

text \<open>Whether the control with the given id is disabled; \<open>None\<close> when the page has no such element.\<close>

definition controlDisabled :: "string \<Rightarrow> DyhtApp \<Rightarrow> bool option" where
  "controlDisabled i s = map_option disabled (getElementById i s)"

text \<open>The page has the three elements that \<open>startRecording\<close> and \<open>stopRecording\<close> assign to.\<close>

definition recordingControls :: "DyhtApp \<Rightarrow> bool" where
  "recordingControls s =
     (getElementById ''record-btn'' s \<noteq> None \<and> getElementById ''stop-btn'' s \<noteq> None \<and>
      getElementById ''recording-status'' s \<noteq> None)"

text \<open>Two states agree on the recording flag and on which controls are disabled.\<close>

definition sameControls :: "DyhtApp \<Rightarrow> DyhtApp \<Rightarrow> bool" where
  "sameControls s s' =
     (isRecording s' = isRecording s \<and> (\<forall>j. controlDisabled j s' = controlDisabled j s))"

definition sameIds :: "DyhtApp \<Rightarrow> DyhtApp \<Rightarrow> bool" where
  "sameIds s s' = (map eid (document s') = map eid (document s))"

definition recordDisabled :: "config \<Rightarrow> bool" where
  "recordDisabled cfg =
     (isRecording (fst cfg) \<longrightarrow> controlDisabled ''record-btn'' (fst cfg) = Some True)"

definition stopEnabled :: "config \<Rightarrow> bool" where
  "stopEnabled cfg =
     (isRecording (fst cfg) \<longrightarrow> controlDisabled ''stop-btn'' (fst cfg) = Some False)"

text \<open>The event of a confirmed kill switch whose backend call succeeds.\<close>

definition killSucceeds :: "event \<Rightarrow> bool" where
  "killSucceeds ev = (case ev of Settle KillSwitch (Inr _) _ \<Rightarrow> True | _ \<Rightarrow> False)"

subsection \<open>The recording lifecycle\<close>

text \<open>
  The controller is recording while its flag is set; it is processing while a
  \<open>process_audio\<close> call is outstanding and the flag is clear; otherwise it is idle.
\<close>

datatype phase = Idle | Recording | Processing

definition phase :: "config \<Rightarrow> phase" where
  "phase cfg =
     (if isRecording (fst cfg) then Recording
      else if ProcessAudio \<in> set (snd cfg) then Processing
      else Idle)"

text \<open>
  The state machine in the words of the specification: start takes Idle to Recording, the
  initiation of a stop takes Recording to Processing, the settling of the \<open>process_audio\<close>
  call takes Processing to Idle, and there are no other transitions. The record control
  starts a recording when none is running and stops the running one otherwise.
\<close>

definition lifecycle :: "phase \<Rightarrow> event \<Rightarrow> phase" where
  "lifecycle p ev =
     (case p of
        Idle \<Rightarrow> (case ev of ToggleRecording \<Rightarrow> Recording | _ \<Rightarrow> Idle)
      | Recording \<Rightarrow>
          (case ev of ToggleRecording \<Rightarrow> Processing | StopRecording \<Rightarrow> Processing | _ \<Rightarrow> Recording)
      | Processing \<Rightarrow> (case ev of Settle ProcessAudio r rd \<Rightarrow> Idle | _ \<Rightarrow> Processing))"

subsection \<open>A page\<close>

text \<open>
  A page holding the elements that the chat, recording and kill-switch handlers look up,
  each of the element type \<open>setupEventListeners\<close> casts it to, all enabled.
\<close>

definition control :: "string \<Rightarrow> tag \<Rightarrow> element" where
  "control i t = (createElement t)\<lparr>eid := i\<rparr>"

definition examplePage :: "element list" where
  "examplePage =
     [control ''chat-input'' Input,
      control ''chat-messages'' Div,
      control ''record-btn'' Button,
      control ''stop-btn'' Button,
      control ''recording-status'' Span,
      control ''clips-list'' Div,
      control ''kill-switch'' Button]"

definition exampleReadings :: readings where
  "exampleReadings =
     \<lparr>isoString = ''2026-01-01T00:00:00.000Z'', localeTimeString = ''12:00:00 AM'',
      millis = 1767225600000, isoString2 = ''2026-01-01T00:00:00.001Z''\<rparr>"

subsection \<open>Render loop\<close>

text \<open>
  \<open>drawCircularWaveform\<close>, the frame callback of \<open>startLiveWaveform\<close>, as the list of the
  calls it makes on the 2D context and the final \<open>requestAnimationFrame\<close>. JavaScript
  numbers are taken as real numbers.
\<close>

datatype command =
    ClearRect real real real real
  | StrokeStyle string
  | LineWidth real
  | BeginPath
  | Arc real real real real real
  | Stroke
  | MoveTo real real
  | LineTo real real
  | ClosePath
  | RequestAnimationFrame

definition amplitude :: "bool \<Rightarrow> real \<Rightarrow> real \<Rightarrow> real" where
  "amplitude recording time i =
     (if recording then sin (time * 3 + i * 0.1) * 20 + sin (time * 7 + i * 0.05) * 10
      else sin (time + i * 0.02) * 5)"

text \<open>The \<open>for\<close> loop, from the value \<open>i\<close> of its counter on.\<close>

function waveform :: "real \<Rightarrow> real \<Rightarrow> real \<Rightarrow> bool \<Rightarrow> real \<Rightarrow> nat \<Rightarrow> command list" where
  "waveform centerX centerY radius recording time i =
     (if i < 360 then
        (let angle = (real i * pi) / 180;
             a = amplitude recording time (real i);
             x = centerX + cos angle * (radius + a);
             y = centerY + sin angle * (radius + a)
         in (if i = 0 then MoveTo x y else LineTo x y) #
            waveform centerX centerY radius recording time (i + 5))
      else [])"
  by pat_completeness auto
termination
  by (relation "measure (\<lambda>(centerX, centerY, radius, recording, time, i). 360 - i)") auto

declare waveform.simps [simp del]

text \<open>
  The vertex number \<open>k\<close> of the deformed circle: at the angle of \<open>5 * k\<close> degrees, at the
  distance of the radius plus the offset from the centre; the first vertex opens the path.
\<close>

definition sample :: "real \<Rightarrow> real \<Rightarrow> real \<Rightarrow> bool \<Rightarrow> real \<Rightarrow> nat \<Rightarrow> command" where
  "sample centerX centerY radius recording time k =
     (if k = 0 then MoveTo else LineTo)
       (centerX + cos (real (5 * k) * pi / 180) * (radius + amplitude recording time (real (5 * k))))
       (centerY + sin (real (5 * k) * pi / 180) * (radius + amplitude recording time (real (5 * k))))"

text \<open>
  One frame on a canvas of the given width and height; \<open>dateNow\<close> is the reading of
  \<open>Date.now()\<close>, and the recording flag is read from the controller.
\<close>

definition drawCircularWaveform :: "real \<Rightarrow> real \<Rightarrow> nat \<Rightarrow> DyhtApp \<Rightarrow> command list" where
  "drawCircularWaveform width height dateNow s =
     (let centerX = width / 2;
          centerY = height / 2;
          radius = 80;
          time = real dateNow * 0.001
      in [ClearRect 0 0 width height,
          StrokeStyle ''#333333'',
          LineWidth 2,
          BeginPath,
          Arc centerX centerY radius 0 (2 * pi),
          Stroke,
          StrokeStyle ''#00ff00'',
          LineWidth 3,
          BeginPath]
         @ waveform centerX centerY radius (isRecording s) time 0
         @ [ClosePath, Stroke, RequestAnimationFrame])"

text \<open>
  \<open>startLiveWaveform\<close>: nothing is drawn without the canvas or without its 2D context;
  otherwise the first frame is drawn, and each frame requests the next.
\<close>

definition startLiveWaveform :: "(real \<times> real) option \<Rightarrow> bool \<Rightarrow> nat \<Rightarrow> DyhtApp \<Rightarrow> command list" where
  "startLiveWaveform liveWaveformCanvas hasContext dateNow s =
     (case liveWaveformCanvas of
        None \<Rightarrow> []
      | Some (width, height) \<Rightarrow>
          if \<not> hasContext then [] else drawCircularWaveform width height dateNow s)"

section \<open>Properties\<close>

subsection \<open>Looking up and changing elements\<close>

lemma find_modifyFirst_same:
  "(\<And>e. eid (f e) = eid e) \<Longrightarrow>
   find (\<lambda>e. eid e = j) (modifyFirst (\<lambda>e. eid e = i) f es) =
     (if i = j then map_option f (find (\<lambda>e. eid e = i) es) else find (\<lambda>e. eid e = j) es)"
  by (induction es) auto

lemma find_modifyFirst_proj:
  "(\<And>e. eid (f e) = eid e) \<Longrightarrow> (\<And>e. h (f e) = h e) \<Longrightarrow>
   map_option h (find (\<lambda>e. eid e = j) (modifyFirst P f es)) =
     map_option h (find (\<lambda>e. eid e = j) es)"
  by (induction es) auto

lemmas disabled_modifyFirst = find_modifyFirst_proj[where h = disabled]

lemma map_eid_modifyFirst:
  "(\<And>e. eid (f e) = eid e) \<Longrightarrow> map eid (modifyFirst P f es) = map eid es"
  by (induction es) auto

lemma eid_disableButton [simp]: "eid (disableButton e) = eid e"
  by (simp add: disableButton_def)

lemma map_eid_disableButton: "map eid (map disableButton es) = map eid es"
  by (induction es) auto

lemma find_map_disableButton:
  "find (\<lambda>e. eid e = j) (map disableButton es) = map_option disableButton (find (\<lambda>e. eid e = j) es)"
  by (induction es) auto

lemma find_kill_switch:
  "find (\<lambda>e. eid e = ''kill-switch'') (map disableButton es) = find (\<lambda>e. eid e = ''kill-switch'') es"
  by (induction es) (auto simp add: disableButton_def)

lemma disabled_disableButton: "disabled e \<Longrightarrow> disabled (disableButton e)"
  by (simp add: disableButton_def)

lemma getElementById_None: "(getElementById j s = None) = (j \<notin> set (map eid (document s)))"
  by (auto simp add: getElementById_def find_None_iff)

lemma document_addChatMessage [simp]: "document (addChatMessage r c now s) = document s"
  by (simp add: addChatMessage_def Let_def split: option.splits)

lemma document_updateAudioClipsList [simp]: "document (updateAudioClipsList a b c s) = document s"
  by (simp add: updateAudioClipsList_def split: option.splits)

lemma document_log [simp]:
  "document (consoleLog vs s) = document s"
  "document (consoleError vs s) = document s"
  "document (alert m s) = document s"
  "document (invoke cmd args s) = document s"
  by (simp_all add: consoleLog_def consoleError_def alert_def invoke_def)

lemma isRecording_simps [simp]:
  "isRecording (addChatMessage r c now s) = isRecording s"
  "isRecording (updateAudioClipsList a b d s) = isRecording s"
  "isRecording (consoleLog vs s) = isRecording s"
  "isRecording (consoleError vs s) = isRecording s"
  "isRecording (alert m s) = isRecording s"
  "isRecording (invoke cmd args s) = isRecording s"
  by (simp_all add: addChatMessage_def Let_def updateAudioClipsList_def consoleLog_def
      consoleError_def alert_def invoke_def split: option.splits)

lemma chatHistory_addChatMessage:
  "chatHistory (addChatMessage r c now s) =
     chatHistory s @ [\<lparr>role = r, content = c, timestamp = now\<rparr>]"
  by (simp add: addChatMessage_def Let_def getElementById_def split: option.splits)

lemma fst_dispatch: "fst (dispatch c cfg p) = after p (fst cfg)"
  by (simp add: dispatch_def after_def split: progress.splits)

lemma snd_dispatch:
  "snd (dispatch c cfg p) = (case p of Awaiting s' \<Rightarrow> snd cfg @ [c] | _ \<Rightarrow> snd cfg)"
  by (simp add: dispatch_def split: progress.splits)

lemma run_snoc: "run (evs @ [ev]) cfg = step ev (run evs cfg)"
  by (simp add: run_def)

text \<open>Evaluation of the handlers on a concrete page.\<close>

lemmas handlers =
  run_def step_def Let_def dispatch_def toggleRecording_def startRecording_def
  startRecording_try_def stopRecording_begin_def stopRecording_try_def stopRecording_resume_def
  stopRecording_rest_def stopRecording_def uninterrupted_def
  andThen_def perform_def assign_def getElementById_def initial_def examplePage_def control_def
  createElement_def consoleLog_def consoleError_def invoke_def emergencyKillSwitch_def
  emergencyKillSwitch_begin_def resume_def
  emergencyKillSwitch_resume_def disableButtons_def disableButton_def addChatMessage_def
  updateAudioClipsList_def controlDisabled_def exampleReadings_def audioData_def
  sendMessage_def sendMessage_begin_def sendMessage_resume_def
  role_name_def phase_def lifecycle_def recordingControls_def killSucceeds_def

subsection \<open>Chat\<close>

lemma trim_hello: "trim ''hello'' = ''hello''"
  by code_simp

lemma whiteSpace_widths: "list_all (\<lambda>p. p \<noteq> [] \<and> length p = encodedLength (hd p)) whiteSpace"
  by code_simp

lemma whiteSpace_width: "\<forall>p \<in> set whiteSpace. p \<noteq> [] \<and> length p = encodedLength (hd p)"
  using whiteSpace_widths by (simp only: list_all_iff)

text \<open>No encoding of a white space code point begins another one.\<close>

lemma startsWith_unique:
  assumes "p \<in> set whiteSpace" "w \<in> set whiteSpace" "startsWith str p" "startsWith str w"
  shows "p = w"
proof -
  from assms(3) have tp: "take (length p) str = p" and np: "p \<noteq> []"
    unfolding startsWith_def by blast+
  from assms(4) have tw: "take (length w) str = w" and nw: "w \<noteq> []"
    unfolding startsWith_def by blast+
  from np have "0 < length p" by blast
  then have "hd (take (length p) str) = hd str" by (rule hd_take)
  then have hp: "hd p = hd str" by (simp only: tp)
  from nw have "0 < length w" by blast
  then have "hd (take (length w) str) = hd str" by (rule hd_take)
  then have hw: "hd w = hd str" by (simp only: tw)
  from assms(1,2) whiteSpace_width have "length p = encodedLength (hd p)" "length w = encodedLength (hd w)"
    by blast+
  then have len: "length p = length w" by (simp only: hp hw)
  have "p = take (length p) str" by (simp only: tp)
  also have "\<dots> = take (length w) str" by (simp only: len)
  also have "\<dots> = w" by (rule tw)
  finally show ?thesis .
qed

lemma strip_Nil: "strip ps [] = []"
proof -
  have "find (startsWith []) ps = None" by (auto simp add: find_None_iff startsWith_def)
  then show ?thesis by (subst strip.simps) simp
qed

lemma strip_blank: "set ws \<subseteq> set whiteSpace \<Longrightarrow> strip whiteSpace (concat ws) = []"
proof (induction ws)
  case Nil
  show ?case by (simp add: strip_Nil)
next
  case (Cons w ws)
  then have w: "w \<in> set whiteSpace" and ws: "set ws \<subseteq> set whiteSpace" by simp_all
  from w whiteSpace_width have "w \<noteq> []" by blast
  then have sw: "startsWith (w @ concat ws) w" by (simp add: startsWith_def)
  with w obtain p where f: "find (startsWith (w @ concat ws)) whiteSpace = Some p"
    by (cases "find (startsWith (w @ concat ws)) whiteSpace") (auto simp add: find_None_iff)
  then have "p \<in> set whiteSpace" "startsWith (w @ concat ws) p"
    by (auto simp add: find_Some_iff)
  with w sw have "p = w" using startsWith_unique by blast
  with f have "strip whiteSpace (concat (w # ws)) = strip whiteSpace (concat ws)"
    by (subst strip.simps) simp
  with Cons.IH[OF ws] show ?case by simp
qed

lemma trim_blank: "set ws \<subseteq> set whiteSpace \<Longrightarrow> trim (concat ws) = []"
  by (simp add: trim_def strip_blank strip_Nil)

text \<open>
  Claim C6. When the chat input holds \<open>hello\<close> and the \<open>chat_with_agent\<close> call resolves to
  \<open>hi\<close>, \<open>sendMessage\<close> finishes having appended exactly two entries to the transcript,
  in this order: the user message \<open>hello\<close>, then the assistant message \<open>hi\<close>. It has issued
  the one call, with the text as its message, and where the page has the \<open>#chat-messages\<close>
  container the two texts are what it has rendered there.
\<close>

theorem sendMessage_hello:
  assumes "getElementById ''chat-input'' s = Some chatInput" and "val chatInput = ''hello''"
  shows "\<exists>s'. sendMessage now (Inr ''hi'') now' s = Finished s' \<and>
           chatHistory s' = chatHistory s @
             [\<lparr>role = User, content = ''hello'', timestamp = now\<rparr>,
              \<lparr>role = Assistant, content = ''hi'', timestamp = now'\<rparr>] \<and>
           invoked s' = invoked s @ [Invoke ''chat_with_agent'' (MessageArg ''hello'')] \<and>
           (getElementById ''chat-messages'' s \<noteq> None \<longrightarrow>
              map textContent (chatMessagesChildren s') =
                map textContent (chatMessagesChildren s) @ [''hello'', ''hi''])"
  using assms
  by (auto simp add: sendMessage_def sendMessage_begin_def sendMessage_resume_def uninterrupted_def
      trim_hello Let_def invoke_def addChatMessage_def getElementById_def find_modifyFirst_same
      split: option.splits)

theorem sendMessage_hello_witness:
  "(case sendMessage ''t1'' (Inr ''hi'') ''t2''
           (initial [(control ''chat-input'' Input)\<lparr>val := ''hello''\<rparr>,
                     control ''chat-messages'' Div]) of
      Finished s' \<Rightarrow>
        chatHistory s' =
          [\<lparr>role = User, content = ''hello'', timestamp = ''t1''\<rparr>,
           \<lparr>role = Assistant, content = ''hi'', timestamp = ''t2''\<rparr>] \<and>
        map textContent (chatMessagesChildren s') = [''hello'', ''hi'']
    | _ \<Rightarrow> False)"
proof -
  let ?e = "(control ''chat-input'' Input)\<lparr>val := ''hello''\<rparr>"
  let ?s = "initial [?e, control ''chat-messages'' Div]"
  have 1: "getElementById ''chat-input'' ?s = Some ?e"
    by (simp add: getElementById_def initial_def control_def createElement_def)
  have 2: "val ?e = ''hello''" by simp
  have 3: "getElementById ''chat-messages'' ?s \<noteq> None"
    by (simp add: getElementById_def initial_def control_def createElement_def)
  from sendMessage_hello[OF 1 2, of "''t1''" "''t2''"] 3 show ?thesis
    by (auto simp add: initial_def)
qed

text \<open>
  Claim C7. When the chat input is empty or holds white space only, that is, when its
  text is a sequence of white space code points, \<open>sendMessage\<close> finishes with the state as
  it was: nothing is appended to the transcript, no backend call is issued, and nothing
  is reported as an error.
\<close>

theorem sendMessage_blank:
  assumes "getElementById ''chat-input'' s = Some chatInput"
    and "val chatInput = concat ws" and "set ws \<subseteq> set whiteSpace"
  shows "sendMessage now r now' s = Finished s"
  using assms
  by (simp add: sendMessage_def sendMessage_begin_def uninterrupted_def trim_blank)

theorem sendMessage_blank_witness:
  "sendMessage ''t1'' (Inr ''hi'') ''t2''
     (initial [(control ''chat-input'' Input)\<lparr>val := [CHR 0x20, CHR 0xC2, CHR 0xA0, CHR 0x09]\<rparr>,
               control ''chat-messages'' Div]) =
   Finished
     (initial [(control ''chat-input'' Input)\<lparr>val := [CHR 0x20, CHR 0xC2, CHR 0xA0, CHR 0x09]\<rparr>,
               control ''chat-messages'' Div])"
proof -
  let ?e = "(control ''chat-input'' Input)\<lparr>val := [CHR 0x20, CHR 0xC2, CHR 0xA0, CHR 0x09]\<rparr>"
  let ?s = "initial [?e, control ''chat-messages'' Div]"
  have 1: "getElementById ''chat-input'' ?s = Some ?e"
    by (simp add: getElementById_def initial_def control_def createElement_def)
  have 2: "val ?e = concat [[CHR 0x20], [CHR 0xC2, CHR 0xA0], [CHR 0x09]]" by simp
  have 3: "set [[CHR 0x20], [CHR 0xC2, CHR 0xA0], [CHR 0x09]] \<subseteq> set whiteSpace"
    by (simp add: whiteSpace_def)
  from sendMessage_blank[OF 1 2 3] show ?thesis .
qed

subsection \<open>Admin code\<close>

text \<open>
  Claim C8. Given the empty code, \<open>verifyAdminCode\<close> shows the alert asking for a code and
  leaves the admin-verified flag as it was. Given any code that is not empty it sets
  the flag and shows the alert that access is granted. Its \<open>try\<close> block never throws, so the
  \<open>catch\<close> block (console error, red border, alert \<open>Invalid admin code\<close>) never runs, and the
  console stays as it was.
\<close>

theorem verifyAdminCode_always_accepts:
  "isAdminVerified (verifyAdminCode [] s) = isAdminVerified s \<and>
   alerts (verifyAdminCode [] s) = alerts s @ [''Please enter an admin code''] \<and>
   isAdminVerified (verifyAdminCode (c # cs) s) \<and>
   alerts (verifyAdminCode (c # cs) s) = alerts s @ [''Admin access granted''] \<and>
   console (verifyAdminCode (c # cs) s) = console s \<and>
   fst (verifyAdminCode_try s) = None"
  by (simp add: verifyAdminCode_def verifyAdminCode_try_def andThen_def perform_def assign_def
      getElementById_def alert_def split: option.splits prod.splits)

subsection \<open>Emergency kill switch\<close>

text \<open>
  Claim C10. When the user confirms and the \<open>emergency_kill_switch\<close> call fails, the handler
  finishes with the session as it was: no chat message is appended, no element of the
  page is changed, so no control is disabled. The failure is only written to the console;
  besides that the state records the question asked and the call issued.
\<close>

theorem emergencyKillSwitch_failure:
  "\<exists>s'. emergencyKillSwitch True (Inl err) now s = Finished s' \<and>
     chatHistory s' = chatHistory s \<and> document s' = document s \<and>
     chatMessagesChildren s' = chatMessagesChildren s \<and>
     clipsListChildren s' = clipsListChildren s \<and>
     isRecording s' = isRecording s \<and> audioClips s' = audioClips s \<and>
     isAdminVerified s' = isAdminVerified s \<and> alerts s' = alerts s \<and>
     confirms s' = confirms s @ [killSwitchQuestion] \<and>
     invoked s' = invoked s @ [Invoke ''emergency_kill_switch'' NoArgs] \<and>
     console s' = console s @ [ConsoleError [S ''Emergency shutdown error:'', E err]]"
  by (simp add: emergencyKillSwitch_def emergencyKillSwitch_begin_def emergencyKillSwitch_resume_def
      uninterrupted_def invoke_def consoleError_def Let_def)

text \<open>
  Claim C1, as the code has it. When the user declines, the handler finishes having
  only asked its question: no backend call is issued and the page is as it was. When
  the user confirms, exactly one \<open>emergency_kill_switch\<close> call is issued. When that call
  succeeds, one confirmation message of the assistant is appended to the transcript and
  the kill switch itself is as it was. When that call fails, no message is appended and
  no control is disabled: the page and what is rendered into it are as they were.
\<close>

theorem emergencyKillSwitch_effect:
  "emergencyKillSwitch False r now s =
     Finished (s\<lparr>confirms := confirms s @ [killSwitchQuestion]\<rparr>) \<and>
   (\<exists>s'. emergencyKillSwitch True r now s = Finished s' \<and>
          invoked s' = invoked s @ [Invoke ''emergency_kill_switch'' NoArgs]) \<and>
   (\<exists>s'. emergencyKillSwitch True (Inr ack) now s = Finished s' \<and>
          chatHistory s' = chatHistory s @
            [\<lparr>role = Assistant,
              content = ''Emergency shutdown activated. All AI functions disabled.'',
              timestamp = now\<rparr>] \<and>
          getElementById ''kill-switch'' s' = getElementById ''kill-switch'' s) \<and>
   (\<exists>s'. emergencyKillSwitch True (Inl err) now s = Finished s' \<and>
          chatHistory s' = chatHistory s \<and>
          document s' = document s \<and>
          chatMessagesChildren s' = chatMessagesChildren s \<and>
          clipsListChildren s' = clipsListChildren s)"
proof -
  have declined: "emergencyKillSwitch False r now s =
      Finished (s\<lparr>confirms := confirms s @ [killSwitchQuestion]\<rparr>)"
    by (simp add: emergencyKillSwitch_def emergencyKillSwitch_begin_def uninterrupted_def Let_def)
  have once: "\<exists>s'. emergencyKillSwitch True r now s = Finished s' \<and>
          invoked s' = invoked s @ [Invoke ''emergency_kill_switch'' NoArgs]"
    by (cases r)
       (simp_all add: emergencyKillSwitch_def emergencyKillSwitch_begin_def uninterrupted_def Let_def
         emergencyKillSwitch_resume_def invoke_def consoleError_def disableButtons_def
         addChatMessage_def getElementById_def split: option.splits)
  let ?s' = "emergencyKillSwitch_resume (Inr ack) now
               (invoke ''emergency_kill_switch'' NoArgs
                  (s\<lparr>confirms := confirms s @ [killSwitchQuestion]\<rparr>))"
  have fin: "emergencyKillSwitch True (Inr ack) now s = Finished ?s'"
    by (simp add: emergencyKillSwitch_def emergencyKillSwitch_begin_def uninterrupted_def Let_def)
  have hist: "chatHistory ?s' = chatHistory s @
            [\<lparr>role = Assistant,
              content = ''Emergency shutdown activated. All AI functions disabled.'',
              timestamp = now\<rparr>]"
    by (simp add: emergencyKillSwitch_resume_def disableButtons_def chatHistory_addChatMessage
        invoke_def)
  have kill: "getElementById ''kill-switch'' ?s' = getElementById ''kill-switch'' s"
    by (simp add: getElementById_def emergencyKillSwitch_resume_def disableButtons_def
        find_kill_switch)
  have failed: "\<exists>s'. emergencyKillSwitch True (Inl err) now s = Finished s' \<and>
          chatHistory s' = chatHistory s \<and>
          document s' = document s \<and>
          chatMessagesChildren s' = chatMessagesChildren s \<and>
          clipsListChildren s' = clipsListChildren s"
    by (simp add: emergencyKillSwitch_def emergencyKillSwitch_begin_def
        emergencyKillSwitch_resume_def uninterrupted_def invoke_def consoleError_def Let_def)
  from declined once fin hist kill failed show ?thesis by blast
qed

text \<open>
  The claim as it is worded fails when the call fails after the confirmation: no
  message is appended, and the record control is as enabled as it was.
\<close>

theorem emergencyKillSwitch_counterexample:
  "(case emergencyKillSwitch True (Inl (Rejected ''unavailable'')) ''t'' (initial examplePage) of
      Finished s' \<Rightarrow> chatHistory s' = [] \<and> controlDisabled ''record-btn'' s' = Some False
    | _ \<Rightarrow> False)"
  by (simp add: handlers)

text \<open>
  Where the handler departs from its own comment, \<open>Disable all interactive elements\<close>:
  its selector \<open>button:not(#kill-switch)\<close> takes the buttons only, so after a confirmed
  kill switch whose call has succeeded the chat input, an input element, is still
  enabled, and Enter in it still sends a chat message to the agent.
\<close>

lemma kill_switch_spares_chat_input:
  "(case emergencyKillSwitch True (Inr ''ok'') ''t'' (initial examplePage) of
      Finished s' \<Rightarrow>
        map_option tag (getElementById ''chat-input'' s') = Some Input \<and>
        controlDisabled ''chat-input'' s' = Some False
    | _ \<Rightarrow> False)"
  by (simp add: handlers)

subsection \<open>Failing backend calls\<close>

text \<open>
  Claim C2, as the code has it. A failing backend call is caught by the handler that
  awaits it and written to the console as an error. For \<open>init_agent\<close> and
  \<open>chat_with_agent\<close> a fixed message of the assistant is appended to the transcript as
  well; for \<open>process_audio\<close> and \<open>emergency_kill_switch\<close> the console error is all that
  happens.
\<close>

theorem backend_failures:
  "console (loadInitialData_resume (Inl err) now s) =
     console s @ [ConsoleError [S ''Failed to initialize agent:'', E err]] \<and>
   chatHistory (loadInitialData_resume (Inl err) now s) =
     chatHistory s @
       [\<lparr>role = Assistant,
         content = ''Failed to initialize agent. Please check the console for errors.'',
         timestamp = now\<rparr>] \<and>
   console (sendMessage_resume (Inl err) now s) =
     console s @ [ConsoleError [S ''Chat error:'', E err]] \<and>
   chatHistory (sendMessage_resume (Inl err) now s) =
     chatHistory s @
       [\<lparr>role = Assistant,
         content = ''Sorry, I encountered an error processing your message.'',
         timestamp = now\<rparr>] \<and>
   stopRecording_resume (Inl err) rd s =
     s\<lparr>console := console s @ [ConsoleError [S ''Stop recording error:'', E err]]\<rparr> \<and>
   emergencyKillSwitch_resume (Inl err) now s =
     s\<lparr>console := console s @ [ConsoleError [S ''Emergency shutdown error:'', E err]]\<rparr>"
  by (simp add: loadInitialData_resume_def sendMessage_resume_def stopRecording_resume_def
      emergencyKillSwitch_resume_def consoleError_def addChatMessage_def Let_def getElementById_def
      split: option.splits)

text \<open>
  Stopping a recording while the backend is unavailable: the error is on the console and
  the transcript is still empty.
\<close>

theorem backend_failures_counterexample:
  "(case stopRecording (Inl (Rejected ''unavailable'')) exampleReadings (initial examplePage) of
      Finished s' \<Rightarrow>
        chatHistory s' = [] \<and>
        console s' = [ConsoleError [S ''Stop recording error:'', E (Rejected ''unavailable'')]]
    | _ \<Rightarrow> False)"
  by (simp add: handlers)

subsection \<open>Recording\<close>

text \<open>
  Claim C3. On a page that has the record control, the stop control, the status text
  and the clips list: starting a recording sets the recording flag, disables the record
  control and enables the stop control; stopping a recording, with the \<open>process_audio\<close>
  call returning a transcription, clears the flag, enables the record control, disables
  the stop control, appends exactly one clip to the clip list and appends one message of
  the assistant that contains the returned transcription.
\<close>

theorem recording_start_stop:
  assumes "recordingControls s" and "getElementById ''clips-list'' s \<noteq> None"
  shows "isRecording (startRecording s) \<and>
         controlDisabled ''record-btn'' (startRecording s) = Some True \<and>
         controlDisabled ''stop-btn'' (startRecording s) = Some False \<and>
         (\<exists>s'. stopRecording (Inr transcribed) rd s = Finished s' \<and>
            \<not> isRecording s' \<and>
            controlDisabled ''record-btn'' s' = Some False \<and>
            controlDisabled ''stop-btn'' s' = Some True \<and>
            audioClips s' = audioClips s @
              [\<lparr>clip_id = ''clip-'' @ decimal (millis rd), clip_timestamp = isoString2 rd,
                duration_ms = 5200, file_path = ''placeholder.wav'',
                transcription = Some ''Placeholder transcription'', waveform_data = Some [],
                tags = [''recorded'']\<rparr>] \<and>
            chatHistory s' = chatHistory s @
              [\<lparr>role = Assistant, content = ''Audio processed: '' @ transcribed,
                timestamp = isoString rd\<rparr>])"
proof -
  have start: "isRecording (startRecording s) \<and>
         controlDisabled ''record-btn'' (startRecording s) = Some True \<and>
         controlDisabled ''stop-btn'' (startRecording s) = Some False"
    using assms(1)
    by (auto simp add: recordingControls_def startRecording_def startRecording_try_def andThen_def
        perform_def assign_def getElementById_def controlDisabled_def consoleLog_def
        find_modifyFirst_same split: option.splits prod.splits)
  have stop: "\<exists>s'. stopRecording (Inr transcribed) rd s = Finished s' \<and>
            \<not> isRecording s' \<and>
            controlDisabled ''record-btn'' s' = Some False \<and>
            controlDisabled ''stop-btn'' s' = Some True \<and>
            audioClips s' = audioClips s @
              [\<lparr>clip_id = ''clip-'' @ decimal (millis rd), clip_timestamp = isoString2 rd,
                duration_ms = 5200, file_path = ''placeholder.wav'',
                transcription = Some ''Placeholder transcription'', waveform_data = Some [],
                tags = [''recorded'']\<rparr>] \<and>
            chatHistory s' = chatHistory s @
              [\<lparr>role = Assistant, content = ''Audio processed: '' @ transcribed,
                timestamp = isoString rd\<rparr>]"
    using assms
    by (auto simp add: recordingControls_def stopRecording_def stopRecording_begin_def
        stopRecording_try_def stopRecording_resume_def stopRecording_rest_def uninterrupted_def
        andThen_def perform_def assign_def getElementById_def controlDisabled_def invoke_def
        addChatMessage_def updateAudioClipsList_def Let_def
        find_modifyFirst_same split: option.splits prod.splits)
  from start stop show ?thesis by blast
qed

theorem recording_start_stop_witness:
  "controlDisabled ''record-btn'' (startRecording (initial examplePage)) = Some True \<and>
   controlDisabled ''stop-btn'' (startRecording (initial examplePage)) = Some False \<and>
   (case stopRecording (Inr ''hello world'') exampleReadings (initial examplePage) of
      Finished s' \<Rightarrow>
        controlDisabled ''record-btn'' s' = Some False \<and>
        controlDisabled ''stop-btn'' s' = Some True \<and>
        length (audioClips s') = 1 \<and>
        map content (chatHistory s') = [''Audio processed: hello world'']
    | _ \<Rightarrow> False)"
proof -
  have a: "recordingControls (initial examplePage)"
    by (simp add: recordingControls_def getElementById_def initial_def examplePage_def control_def
        createElement_def)
  have b: "getElementById ''clips-list'' (initial examplePage) \<noteq> None"
    by (simp add: getElementById_def initial_def examplePage_def control_def createElement_def)
  have e: "audioClips (initial examplePage) = []" "chatHistory (initial examplePage) = []"
    by (simp_all add: initial_def)
  from recording_start_stop[OF a b, of "''hello world''" exampleReadings]
  obtain s' where
    fin: "stopRecording (Inr ''hello world'') exampleReadings (initial examplePage) = Finished s'"
    and stop: "controlDisabled ''record-btn'' s' = Some False"
      "controlDisabled ''stop-btn'' s' = Some True"
      "length (audioClips s') = 1"
      "map content (chatHistory s') = [''Audio processed: hello world'']"
    and start: "controlDisabled ''record-btn'' (startRecording (initial examplePage)) = Some True"
      "controlDisabled ''stop-btn'' (startRecording (initial examplePage)) = Some False"
    unfolding e by auto
  show ?thesis unfolding fin using start stop by simp
qed

subsection \<open>What an operation leaves alone\<close>

lemma sameControls_refl: "sameControls s s"
  by (simp add: sameControls_def)

lemma sameControls_trans: "sameControls s s' \<Longrightarrow> sameControls s' s'' \<Longrightarrow> sameControls s s''"
  by (simp add: sameControls_def)

lemma sameControls_document:
  "document s' = document s \<Longrightarrow> isRecording s' = isRecording s \<Longrightarrow> sameControls s s'"
  by (simp add: sameControls_def controlDisabled_def getElementById_def)

lemma sameControls_addChatMessage: "sameControls s (addChatMessage r c now s)"
  by (rule sameControls_document) simp_all

lemma sameControls_consoleError: "sameControls s (consoleError vs s)"
  by (rule sameControls_document) simp_all

lemma sameControls_consoleLog: "sameControls s (consoleLog vs s)"
  by (rule sameControls_document) simp_all

lemma sameControls_updateAudioClipsList: "sameControls s (updateAudioClipsList a b c s)"
  by (rule sameControls_document) simp_all

lemma sameControls_restyle:
  "(\<And>e. eid (f e) = eid e) \<Longrightarrow> (\<And>e. disabled (f e) = disabled e) \<Longrightarrow>
   sameControls s (s\<lparr>document := modifyFirst P f (document s)\<rparr>)"
  by (simp add: sameControls_def controlDisabled_def getElementById_def find_modifyFirst_proj)

lemma sameControls_assign:
  "(\<And>e. eid (f e) = eid e) \<Longrightarrow> (\<And>e. disabled (f e) = disabled e) \<Longrightarrow>
   sameControls s (snd (assign i f s))"
  by (simp add: assign_def sameControls_restyle sameControls_refl split: option.splits)

lemma sameControls_sendMessage_resume: "sameControls s (sendMessage_resume r now s)"
  unfolding sendMessage_resume_def
  by (auto split: sum.splits intro: sameControls_addChatMessage
      sameControls_trans[OF sameControls_consoleError sameControls_addChatMessage])

lemma sameControls_loadInitialData_resume: "sameControls s (loadInitialData_resume r now s)"
  unfolding loadInitialData_resume_def
  by (auto split: sum.splits intro: sameControls_addChatMessage
      sameControls_trans[OF sameControls_consoleError sameControls_addChatMessage])

lemma sameControls_stopRecording_resume: "sameControls s (stopRecording_resume r rd s)"
proof (cases r)
  case (Inl err)
  then show ?thesis by (simp add: stopRecording_resume_def sameControls_consoleError)
next
  case (Inr transcribed)
  let ?a1 = "assign ''recording-status'' (\<lambda>e. e\<lparr>textContent := ''Ready''\<rparr>)"
  let ?a2 = "assign ''recording-status'' (\<lambda>e. e\<lparr>styleColor := ''#cccccc''\<rparr>)"
  have 1: "sameControls s (snd (?a1 s))" by (rule sameControls_assign) simp_all
  have 2: "sameControls (snd (?a1 s)) (snd (?a2 (snd (?a1 s))))"
    by (rule sameControls_assign) simp_all
  note 12 = sameControls_trans[OF 1 2]
  note 123 = sameControls_trans[OF 12 sameControls_addChatMessage]
  note 1234 = sameControls_trans[OF 123 sameControls_updateAudioClipsList]
  show ?thesis
    using Inr 1 12 1234
    by (auto simp add: stopRecording_resume_def stopRecording_rest_def andThen_def perform_def
        split: prod.splits option.splits
        intro: sameControls_trans[OF _ sameControls_consoleError])
qed

lemma sameControls_verifyAdminCode: "sameControls s (verifyAdminCode adminCode s)"
  by (simp add: sameControls_def controlDisabled_def getElementById_def verifyAdminCode_def
      verifyAdminCode_try_def verifyAdminCode_catch_def andThen_def perform_def assign_def
      Let_def disabled_modifyFirst split: prod.splits option.splits)

lemma sameControls_switchModel: "sameControls s (switchModel model now s)"
  by (simp add: sameControls_def controlDisabled_def getElementById_def switchModel_def
      switchModel_try_def andThen_def perform_def split: prod.splits option.splits)

lemma sameControls_switchTheme: "sameControls s (switchTheme theme s)"
  by (simp add: sameControls_def controlDisabled_def getElementById_def switchTheme_def Let_def)

lemma sameControls_minimizePanel: "sameControls s (minimizePanel s)"
  by (simp add: sameControls_def controlDisabled_def getElementById_def minimizePanel_def
      disabled_modifyFirst split: option.splits)

lemma sameControls_closePanel: "sameControls s (closePanel s)"
  by (simp add: sameControls_def controlDisabled_def getElementById_def closePanel_def
      disabled_modifyFirst split: option.splits)

lemma sameControls_sendMessage_begin: "sameControls s (after (sendMessage_begin now s) s)"
  by (simp add: sameControls_def controlDisabled_def getElementById_def sendMessage_begin_def
      after_def Let_def disabled_modifyFirst split: option.splits)

lemma sameControls_emergencyKillSwitch_begin:
  "sameControls s (after (emergencyKillSwitch_begin confirmed s) s)"
  by (simp add: sameControls_def controlDisabled_def getElementById_def
      emergencyKillSwitch_begin_def after_def Let_def)

lemma sameControls_resume:
  "\<not> (c = KillSwitch \<and> isr r) \<Longrightarrow> isr = (\<lambda>r. case r of Inr _ \<Rightarrow> True | _ \<Rightarrow> False) \<Longrightarrow>
   sameControls s (resume c r rd s)"
  by (cases c; cases r)
     (simp_all add: resume_def sameControls_loadInitialData_resume sameControls_sendMessage_resume
       sameControls_stopRecording_resume emergencyKillSwitch_resume_def sameControls_consoleError)

lemma sameControls_step:
  assumes "ev \<noteq> ToggleRecording" and "ev \<noteq> StopRecording" and "\<not> killSucceeds ev"
  shows "sameControls (fst cfg) (fst (step ev cfg))"
proof (cases ev)
  case (Settle c r rd)
  with assms(3) have "\<not> (c = KillSwitch \<and> (case r of Inr _ \<Rightarrow> True | _ \<Rightarrow> False))"
    by (auto simp add: killSucceeds_def split: call.splits sum.splits)
  then have "sameControls (fst cfg) (resume c r rd (fst cfg))"
    by (rule sameControls_resume) simp
  with Settle show ?thesis by (simp add: step_def Let_def sameControls_refl)
next
  case LoadInitialData
  then show ?thesis
    by (simp add: step_def Let_def fst_dispatch loadInitialData_begin_def after_def
        sameControls_document)
qed (use assms in \<open>simp_all add: step_def Let_def fst_dispatch sameControls_verifyAdminCode
      sameControls_switchModel sameControls_switchTheme sameControls_minimizePanel
      sameControls_closePanel sameControls_sendMessage_begin
      sameControls_emergencyKillSwitch_begin
      toggleVoiceActivation_def toggleAutoTranscribe_def toggleSmartResponse_def
      sameControls_consoleLog\<close>)

lemma sameIds_refl: "sameIds s s"
  by (simp add: sameIds_def)

lemma sameIds_trans: "sameIds s s' \<Longrightarrow> sameIds s' s'' \<Longrightarrow> sameIds s s''"
  by (simp add: sameIds_def)

lemma sameIds_assign: "(\<And>e. eid (f e) = eid e) \<Longrightarrow> sameIds s (snd (assign i f s))"
  by (simp add: assign_def sameIds_def map_eid_modifyFirst split: option.splits)

lemma sameIds_perform: "(\<And>s. document (f s) = document s) \<Longrightarrow> sameIds s (snd (perform f s))"
  by (simp add: perform_def sameIds_def)

lemma sameIds_andThen:
  "(\<And>s. sameIds s (snd (p s))) \<Longrightarrow> (\<And>s. sameIds s (snd (q s))) \<Longrightarrow>
   sameIds s (snd (andThen p q s))"
  apply (simp add: andThen_def split: prod.splits option.splits)
  by (metis sameIds_trans snd_conv)

lemma sameIds_startRecording_try: "sameIds s (snd (startRecording_try s))"
  by (simp add: startRecording_try_def sameIds_andThen sameIds_assign sameIds_perform sameIds_refl)

lemma sameIds_startRecording: "sameIds s (startRecording s)"
  using sameIds_startRecording_try[of s]
  by (cases "startRecording_try s")
     (auto simp add: startRecording_def sameIds_def consoleError_def split: option.splits)

lemma sameIds_stopRecording_try: "sameIds s (snd (stopRecording_try s))"
  by (simp add: stopRecording_try_def sameIds_andThen sameIds_assign sameIds_perform sameIds_refl)

lemma sameIds_stopRecording_begin: "sameIds s (after (stopRecording_begin s) s)"
  using sameIds_stopRecording_try[of s]
  by (cases "stopRecording_try s")
     (auto simp add: stopRecording_begin_def after_def sameIds_def split: option.splits)

lemma sameIds_stopRecording_rest: "sameIds s (snd (stopRecording_rest t rd s))"
  by (simp add: stopRecording_rest_def sameIds_andThen sameIds_assign sameIds_perform sameIds_refl)

lemma sameIds_stopRecording_resume: "sameIds s (stopRecording_resume r rd s)"
proof (cases r)
  case (Inl err)
  then show ?thesis by (simp add: stopRecording_resume_def sameIds_def)
next
  case (Inr transcribed)
  then show ?thesis
    using sameIds_stopRecording_rest[of s transcribed rd]
    by (cases "stopRecording_rest transcribed rd s")
       (auto simp add: stopRecording_resume_def sameIds_def split: option.splits)
qed

lemma sameIds_verifyAdminCode: "sameIds s (verifyAdminCode adminCode s)"
  by (simp add: verifyAdminCode_def verifyAdminCode_try_def verifyAdminCode_catch_def
      andThen_def perform_def assign_def sameIds_def map_eid_modifyFirst Let_def
      split: prod.splits option.splits)

text \<open>No operation adds an element to the page, removes one or changes an id.\<close>

lemma sameIds_step: "sameIds (fst cfg) (fst (step ev cfg))"
proof (cases ev)
  case ToggleRecording
  then show ?thesis
    using sameIds_startRecording sameIds_stopRecording_begin
    by (simp add: step_def Let_def fst_dispatch toggleRecording_def after_def)
next
  case StopRecording
  then show ?thesis
    using sameIds_stopRecording_begin by (simp add: step_def Let_def fst_dispatch)
next
  case (Settle c r rd)
  then show ?thesis
    using sameIds_stopRecording_resume[of "fst cfg" r rd]
    by (cases c)
      (simp_all add: step_def Let_def resume_def sameIds_def loadInitialData_resume_def
        sendMessage_resume_def emergencyKillSwitch_resume_def disableButtons_def
        map_eid_disableButton split: sum.splits)
next
  case (VerifyAdminCode x)
  then show ?thesis using sameIds_verifyAdminCode by (simp add: step_def Let_def)
qed (simp_all add: step_def fst_dispatch after_def sameIds_def loadInitialData_begin_def
      sendMessage_begin_def emergencyKillSwitch_begin_def switchModel_def switchModel_try_def
      switchTheme_def minimizePanel_def closePanel_def toggleVoiceActivation_def
      toggleAutoTranscribe_def toggleSmartResponse_def andThen_def perform_def
      map_eid_modifyFirst Let_def split: option.splits prod.splits)

lemma recordingControls_step:
  "recordingControls (fst (step ev cfg)) = recordingControls (fst cfg)"
  using sameIds_step[of cfg ev]
  by (simp add: recordingControls_def getElementById_None sameIds_def)

subsection \<open>The recording flag and the two controls\<close>

lemma kill_success_stays_disabled:
  "controlDisabled j s = Some True \<Longrightarrow>
   controlDisabled j (emergencyKillSwitch_resume (Inr ack) now s) = Some True"
  by (auto simp add: controlDisabled_def getElementById_def emergencyKillSwitch_resume_def
      disableButtons_def find_map_disableButton disabled_disableButton)

lemma isRecording_kill_resume [simp]:
  "isRecording (emergencyKillSwitch_resume r now s) = isRecording s"
  by (simp add: emergencyKillSwitch_resume_def disableButtons_def split: sum.splits)

lemma stopRecording_try_clears: "\<not> isRecording (snd (stopRecording_try s))"
  by (simp add: stopRecording_try_def andThen_def perform_def assign_def
      split: prod.splits option.splits)

lemma stopRecording_begin_clears: "\<not> isRecording (after (stopRecording_begin s) s)"
  using stopRecording_try_clears[of s]
  by (cases "stopRecording_try s")
     (auto simp add: stopRecording_begin_def after_def split: option.splits)

lemma startRecording_cases:
  "\<not> isRecording (startRecording s) \<or>
     (controlDisabled ''record-btn'' (startRecording s) = Some True \<and>
      controlDisabled ''stop-btn'' (startRecording s) = Some False)"
  by (auto simp add: startRecording_def startRecording_try_def andThen_def perform_def assign_def
      getElementById_def controlDisabled_def consoleLog_def consoleError_def find_modifyFirst_same
      split: option.splits prod.splits)

lemma step_toggle_stop:
  assumes "ev = ToggleRecording \<or> ev = StopRecording"
  shows "recordDisabled (step ev cfg) \<and> stopEnabled (step ev cfg)"
  using assms startRecording_cases[of "fst cfg"] stopRecording_begin_clears[of "fst cfg"]
  by (auto simp add: recordDisabled_def stopEnabled_def step_def Let_def fst_dispatch
      toggleRecording_def after_def)

lemma step_recordDisabled: "recordDisabled cfg \<Longrightarrow> recordDisabled (step ev cfg)"
proof -
  assume inv: "recordDisabled cfg"
  consider "ev = ToggleRecording \<or> ev = StopRecording" | "killSucceeds ev"
    | "ev \<noteq> ToggleRecording" "ev \<noteq> StopRecording" "\<not> killSucceeds ev" by blast
  then show ?thesis
  proof cases
    case 1
    then show ?thesis using step_toggle_stop by blast
  next
    case 2
    then obtain ack rd where ev: "ev = Settle KillSwitch (Inr ack) rd"
      by (auto simp add: killSucceeds_def split: event.splits call.splits sum.splits)
    show ?thesis
      using inv kill_success_stays_disabled[of "''record-btn''" "fst cfg" ack "isoString rd"]
      by (auto simp add: ev recordDisabled_def step_def Let_def resume_def)
  next
    case 3
    then have "sameControls (fst cfg) (fst (step ev cfg))" by (rule sameControls_step)
    with inv show ?thesis by (simp add: recordDisabled_def sameControls_def)
  qed
qed

lemma step_stopEnabled:
  "\<not> killSucceeds ev \<Longrightarrow> stopEnabled cfg \<Longrightarrow> stopEnabled (step ev cfg)"
proof -
  assume nk: "\<not> killSucceeds ev" and inv: "stopEnabled cfg"
  show ?thesis
  proof (cases "ev = ToggleRecording \<or> ev = StopRecording")
    case True
    then show ?thesis using step_toggle_stop by blast
  next
    case False
    with nk have "sameControls (fst cfg) (fst (step ev cfg))" by (simp add: sameControls_step)
    with inv show ?thesis by (simp add: stopEnabled_def sameControls_def)
  qed
qed

lemma run_recordDisabled: "recordDisabled cfg \<Longrightarrow> recordDisabled (run evs cfg)"
  by (induction evs rule: rev_induct) (simp_all add: run_snoc step_recordDisabled, simp add: run_def)

lemma run_stopEnabled:
  "\<forall>ev \<in> set evs. \<not> killSucceeds ev \<Longrightarrow> stopEnabled cfg \<Longrightarrow> stopEnabled (run evs cfg)"
  by (induction evs rule: rev_induct) (simp_all add: run_snoc step_stopEnabled, simp add: run_def)

text \<open>
  Claim C5, as the code has it. In every state that a freshly constructed controller
  reaches by a sequence of operations (handlers started, outstanding calls settling), if
  the recording flag is set then the record control is disabled; and if moreover no
  confirmed kill switch has had its call succeed in that sequence, the stop control is
  enabled.
\<close>

theorem recording_flag_invariant:
  assumes "isRecording (fst (run evs (initial page, [])))"
  shows "controlDisabled ''record-btn'' (fst (run evs (initial page, []))) = Some True \<and>
         ((\<forall>ev \<in> set evs. \<not> killSucceeds ev) \<longrightarrow>
            controlDisabled ''stop-btn'' (fst (run evs (initial page, []))) = Some False)"
proof -
  have 0: "recordDisabled (initial page, [])" "stopEnabled (initial page, [])"
    by (simp_all add: recordDisabled_def stopEnabled_def initial_def)
  from run_recordDisabled[OF 0(1), of evs] run_stopEnabled[OF _ 0(2), of evs] assms
  show ?thesis by (auto simp add: recordDisabled_def stopEnabled_def)
qed

theorem recording_flag_invariant_witness:
  "controlDisabled ''record-btn'' (fst (run [ToggleRecording] (initial examplePage, []))) =
     Some True \<and>
   controlDisabled ''stop-btn'' (fst (run [ToggleRecording] (initial examplePage, []))) =
     Some False"
proof -
  have rec: "isRecording (fst (run [ToggleRecording] (initial examplePage, [])))"
    by (simp add: handlers)
  from recording_flag_invariant[OF rec] show ?thesis by (simp add: killSucceeds_def)
qed

text \<open>
  The record control is clicked, then the kill switch is clicked and confirmed, and its
  call succeeds: the recording flag is still set and the stop control is disabled.
\<close>

theorem recording_flag_counterexample:
  "isRecording
     (fst (run [ToggleRecording, EmergencyKillSwitch True,
                Settle KillSwitch (Inr ''ok'') exampleReadings] (initial examplePage, []))) \<and>
   controlDisabled ''stop-btn''
     (fst (run [ToggleRecording, EmergencyKillSwitch True,
                Settle KillSwitch (Inr ''ok'') exampleReadings] (initial examplePage, []))) =
     Some True"
  by (simp add: handlers)

subsection \<open>The recording lifecycle\<close>

lemma startRecording_sets: "recordingControls s \<Longrightarrow> isRecording (startRecording s)"
  by (auto simp add: recordingControls_def startRecording_def startRecording_try_def andThen_def
      perform_def assign_def getElementById_def consoleLog_def find_modifyFirst_same
      split: option.splits prod.splits)

lemma stopRecording_begin_awaits:
  "recordingControls s \<Longrightarrow> \<exists>s'. stopRecording_begin s = Awaiting s' \<and> \<not> isRecording s'"
  by (auto simp add: recordingControls_def stopRecording_begin_def stopRecording_try_def
      andThen_def perform_def assign_def getElementById_def invoke_def find_modifyFirst_same
      split: option.splits prod.splits)

lemma in_set_count: "(x \<in> set q) = (0 < count_list q x)"
  by (induction q) auto

lemma in_remove1_same: "(x \<in> set (remove1 x q)) = (1 < count_list q x)"
  by (induction q) (auto simp add: in_set_count)

lemma in_remove1_other: "x \<noteq> y \<Longrightarrow> (x \<in> set (remove1 y q)) = (x \<in> set q)"
  by (induction q) auto

lemma isRecording_step_other:
  assumes "ev \<noteq> ToggleRecording" and "ev \<noteq> StopRecording"
  shows "isRecording (fst (step ev cfg)) = isRecording (fst cfg)"
proof (cases "killSucceeds ev")
  case True
  then obtain ack rd where ev: "ev = Settle KillSwitch (Inr ack) rd"
    by (auto simp add: killSucceeds_def split: event.splits call.splits sum.splits)
  show ?thesis by (simp add: ev step_def Let_def resume_def)
next
  case False
  with assms have "sameControls (fst cfg) (fst (step ev cfg))" by (simp add: sameControls_step)
  then show ?thesis by (simp add: sameControls_def)
qed

lemma outstanding_step_other:
  assumes "ev \<noteq> ToggleRecording" and "ev \<noteq> StopRecording"
    and "\<And>r rd. ev \<noteq> Settle ProcessAudio r rd"
  shows "(ProcessAudio \<in> set (snd (step ev cfg))) = (ProcessAudio \<in> set (snd cfg))"
proof (cases ev)
  case (Settle c r rd)
  with assms(3) have "c \<noteq> ProcessAudio" by auto
  with Settle show ?thesis by (simp add: step_def Let_def in_remove1_other)
qed (use assms in \<open>simp_all add: step_def Let_def snd_dispatch split: progress.splits\<close>)

lemma phase_step_other:
  assumes "ev \<noteq> ToggleRecording" and "ev \<noteq> StopRecording"
    and "\<And>r rd. ev \<noteq> Settle ProcessAudio r rd"
  shows "phase (step ev cfg) = phase cfg"
  using isRecording_step_other[OF assms(1,2), of cfg] outstanding_step_other[OF assms, of cfg]
  by (simp add: phase_def)

text \<open>
  Claim C4, as the code has it. On a page that has the record control, the stop
  control and the status text, the phase changes as follows and in no other way. The
  record control takes Recording to Processing and every other phase to Recording: a
  recording can be started while a \<open>process_audio\<close> call is outstanding, as the record
  control is enabled again before the call is awaited. The stop control leads to
  Processing from every phase. The settling of a \<open>process_audio\<close> call, with success or
  with failure alike, takes Processing to Idle when it is the only such call outstanding,
  and leaves the phase otherwise. No other operation changes the phase, and the three
  elements stay on the page.
\<close>

theorem lifecycle_as_built:
  assumes "recordingControls (fst cfg)"
  shows "phase (step ev cfg) =
           (case ev of
              ToggleRecording \<Rightarrow> (if phase cfg = Recording then Processing else Recording)
            | StopRecording \<Rightarrow> Processing
            | Settle c r rd \<Rightarrow>
                (if c = ProcessAudio \<and> phase cfg = Processing \<and>
                    count_list (snd cfg) ProcessAudio = 1
                 then Idle else phase cfg)
            | _ \<Rightarrow> phase cfg) \<and>
         recordingControls (fst (step ev cfg))"
proof -
  from assms obtain s' where
    stop: "stopRecording_begin (fst cfg) = Awaiting s'" "\<not> isRecording s'"
    using stopRecording_begin_awaits by blast
  have start: "isRecording (startRecording (fst cfg))"
    using assms by (rule startRecording_sets)
  have "phase (step ev cfg) =
           (case ev of
              ToggleRecording \<Rightarrow> (if phase cfg = Recording then Processing else Recording)
            | StopRecording \<Rightarrow> Processing
            | Settle c r rd \<Rightarrow>
                (if c = ProcessAudio \<and> phase cfg = Processing \<and>
                    count_list (snd cfg) ProcessAudio = 1
                 then Idle else phase cfg)
            | _ \<Rightarrow> phase cfg)"
  proof (cases ev)
    case ToggleRecording
    then show ?thesis using stop start
      by (simp add: step_def Let_def dispatch_def toggleRecording_def phase_def)
  next
    case StopRecording
    then show ?thesis using stop
      by (simp add: step_def Let_def dispatch_def phase_def)
  next
    case (Settle c r rd)
    show ?thesis
    proof (cases "c = ProcessAudio")
      case False
      then have "phase (step ev cfg) = phase cfg"
        using Settle by (intro phase_step_other) auto
      with False Settle show ?thesis by simp
    next
      case True
      have rec: "isRecording (fst (step ev cfg)) = isRecording (fst cfg)"
        using Settle by (intro isRecording_step_other) auto
      have q: "snd (step ev cfg) =
          (if ProcessAudio \<in> set (snd cfg) then remove1 ProcessAudio (snd cfg) else snd cfg)"
        using Settle True by (simp add: step_def Let_def)
      have "(ProcessAudio \<in> set (snd cfg)) = (0 < count_list (snd cfg) ProcessAudio)"
        by (rule in_set_count)
      then show ?thesis
        using rec q True Settle
        by (auto simp add: phase_def in_remove1_same)
    qed
  qed (simp_all add: phase_step_other)
  then show ?thesis using assms by (simp add: recordingControls_step)
qed

theorem lifecycle_as_built_witness:
  "recordingControls (initial examplePage) \<and>
   phase (step ToggleRecording (initial examplePage, [])) = Recording"
proof -
  have h: "recordingControls (fst (initial examplePage, []))" by (simp add: handlers)
  have p: "phase (initial examplePage, []) = Idle" by (simp add: phase_def initial_def)
  from lifecycle_as_built[OF h, of ToggleRecording] p h show ?thesis by simp
qed

text \<open>
  The record control is clicked, then the stop control, and then, with the
  \<open>process_audio\<close> call still outstanding, the record control again: the phase goes from
  Processing to Recording, where the state machine of the specification stays in
  Processing.
\<close>

theorem lifecycle_counterexample:
  "phase (run [ToggleRecording, StopRecording] (initial examplePage, [])) = Processing \<and>
   phase (step ToggleRecording (run [ToggleRecording, StopRecording] (initial examplePage, []))) =
     Recording \<and>
   lifecycle Processing ToggleRecording = Processing"
  by (simp add: handlers)

subsection \<open>Render loop\<close>

lemma waveform_step:
  "i < 360 \<Longrightarrow>
   waveform centerX centerY radius recording time i =
     (if i = 0 then MoveTo else LineTo)
       (centerX + cos (real i * pi / 180) * (radius + amplitude recording time (real i)))
       (centerY + sin (real i * pi / 180) * (radius + amplitude recording time (real i))) #
     waveform centerX centerY radius recording time (i + 5)"
  by (subst waveform.simps) (simp add: Let_def)

lemma waveform_done: "\<not> i < 360 \<Longrightarrow> waveform centerX centerY radius recording time i = []"
  by (subst waveform.simps) simp

lemma waveform_from:
  "k \<le> 72 \<Longrightarrow>
   waveform centerX centerY radius recording time (5 * k) =
     map (sample centerX centerY radius recording time) [k..<72]"
proof (induction k rule: inc_induct)
  case base
  have "waveform centerX centerY radius recording time (5 * 72) = []"
    by (rule waveform_done) simp
  then show ?case by simp
next
  case (step n)
  have lt: "5 * n < 360" using step.hyps(2) by simp
  have suc: "5 * n + 5 = 5 * Suc n" by simp
  have zero: "(5 * n = 0) = (n = 0)" by simp
  have upt: "[n..<72] = n # [Suc n..<72]" using step.hyps(2) by (rule upt_conv_Cons)
  have "waveform centerX centerY radius recording time (5 * n) =
        sample centerX centerY radius recording time n #
        waveform centerX centerY radius recording time (5 * Suc n)"
    by (simp only: waveform_step[OF lt] suc zero sample_def)
  also have "\<dots> = sample centerX centerY radius recording time n #
        map (sample centerX centerY radius recording time) [Suc n..<72]"
    by (simp only: step.IH)
  finally show ?case by (simp only: upt list.map)
qed

lemma two_sines: "\<bar>sin x * 20 + sin y * 10\<bar> \<le> (30::real)"
proof -
  have "- 1 \<le> sin x" "sin x \<le> 1" "- 1 \<le> sin y" "sin y \<le> 1" by simp_all
  then show ?thesis unfolding abs_le_iff by linarith
qed

lemma one_sine: "\<bar>sin x * 5\<bar> \<le> (5::real)"
proof -
  have "- 1 \<le> sin x" "sin x \<le> 1" by simp_all
  then show ?thesis unfolding abs_le_iff by linarith
qed

lemma sin_seven_quarter_turns: "sin (pi / 2 * 7) = - 1"
proof -
  have "pi / 2 * 7 = 3 / 2 * pi + 2 * pi" by simp
  then have "sin (pi / 2 * 7) = sin (3 / 2 * pi + 2 * pi)" by (rule arg_cong)
  also have "\<dots> = sin (3 / 2 * pi)" by (rule sin_periodic)
  also have "\<dots> = - 1" by (rule sin_3over2_pi)
  finally show ?thesis .
qed

lemma sin_three_quarter_turns: "sin (pi / 2 * 3) = - 1"
proof -
  have "pi / 2 * 3 = 3 / 2 * pi" by simp
  then have "sin (pi / 2 * 3) = sin (3 / 2 * pi)" by (rule arg_cong)
  also have "\<dots> = - 1" by (rule sin_3over2_pi)
  finally show ?thesis .
qed

lemma amplitude_peak: "amplitude True (pi / 2) 0 = - 30"
proof -
  have "amplitude True (pi / 2) 0 = sin (pi / 2 * 3) * 20 + sin (pi / 2 * 7) * 10"
    by (simp only: amplitude_def if_True mult_zero_left add_0_right)
  also have "\<dots> = - 30" by (simp only: sin_three_quarter_turns sin_seven_quarter_turns)
  finally show ?thesis .
qed

text \<open>
  Claim C9. A frame clears the canvas, strokes the reference circle of radius 80 around
  the centre of the canvas, and then strokes a closed path of 72 vertices, one every 5
  degrees from 0 to 355; it ends by requesting the next frame. The vertex at an angle lies
  at the distance of 80 plus an offset from the centre. While recording the offset is the sum
  of two sines of the time, of the frequencies 3 and 7 and the amplitudes 20 and 10, so
  within 30, a bound it reaches; otherwise it is one sine of the frequency 1 and the
  amplitude 5, so within 5. The time is the reading of the wall clock in seconds.
\<close>

theorem drawCircularWaveform_frame:
  "drawCircularWaveform width height dateNow s =
     [ClearRect 0 0 width height,
      StrokeStyle ''#333333'', LineWidth 2, BeginPath,
      Arc (width / 2) (height / 2) 80 0 (2 * pi), Stroke,
      StrokeStyle ''#00ff00'', LineWidth 3, BeginPath] @
     map (sample (width / 2) (height / 2) 80 (isRecording s) (real dateNow * 0.001)) [0..<72] @
     [ClosePath, Stroke, RequestAnimationFrame] \<and>
   amplitude True time i = sin (time * 3 + i * 0.1) * 20 + sin (time * 7 + i * 0.05) * 10 \<and>
   amplitude False time i = sin (time + i * 0.02) * 5 \<and>
   \<bar>amplitude True time i\<bar> \<le> 30 \<and> \<bar>amplitude False time i\<bar> \<le> 5 \<and>
   amplitude True (pi / 2) 0 = - 30"
proof -
  have "waveform (width / 2) (height / 2) 80 (isRecording s) (real dateNow * 0.001) (5 * 0) =
     map (sample (width / 2) (height / 2) 80 (isRecording s) (real dateNow * 0.001)) [0..<72]"
    by (rule waveform_from) simp
  then have frame: "drawCircularWaveform width height dateNow s =
     [ClearRect 0 0 width height,
      StrokeStyle ''#333333'', LineWidth 2, BeginPath,
      Arc (width / 2) (height / 2) 80 0 (2 * pi), Stroke,
      StrokeStyle ''#00ff00'', LineWidth 3, BeginPath] @
     map (sample (width / 2) (height / 2) 80 (isRecording s) (real dateNow * 0.001)) [0..<72] @
     [ClosePath, Stroke, RequestAnimationFrame]"
    by (simp only: drawCircularWaveform_def Let_def mult_0_right)
  have rec: "amplitude True time i = sin (time * 3 + i * 0.1) * 20 + sin (time * 7 + i * 0.05) * 10"
    and idle: "amplitude False time i = sin (time + i * 0.02) * 5"
    by (simp_all only: amplitude_def if_True if_False)
  have "\<bar>amplitude True time i\<bar> \<le> 30" "\<bar>amplitude False time i\<bar> \<le> 5"
    unfolding rec idle by (rule two_sines, rule one_sine)
  with frame rec idle amplitude_peak show ?thesis by blast
qed

end
